theory Spec2Isabelle
  imports Complex_Main
begin

section \<open>Faults\<close>

text \<open>
  The exceptions that the modelled code raises. A function that can raise returns
  \<open>fault + 'a\<close>, with \<open>Inl\<close> for the exception. \<open>ToolError\<close> stands for whatever an
  external tool (IRAF, SExtractor) raises; the code never catches it.

  Python floats are modelled as real numbers: rounding, overflow and NaN are outside
  the model.
\<close>

datatype fault =
  ValueError | AssertionError | IndexError | IOError | KeyError | TypeError | ToolError

definition bind_fault :: "fault + 'a \<Rightarrow> ('a \<Rightarrow> fault + 'b) \<Rightarrow> fault + 'b" where
  "bind_fault m f = (case m of Inl e \<Rightarrow> Inl e | Inr v \<Rightarrow> f v)"

text \<open>
  \<^verbatim>\<open>assert cond\<close>. The statement is compiled to
  \<^verbatim>\<open>if __debug__: if not cond: raise AssertionError\<close>; the value of \<^verbatim>\<open>__debug__\<close>
  (true unless the interpreter runs with -O) is the first argument.
\<close>

definition py_assert :: "bool \<Rightarrow> bool \<Rightarrow> fault + unit" where
  "py_assert debug cond = (if debug \<and> \<not> cond then Inl AssertionError else Inr ())"


section \<open>qphot.py: QPhotResult\<close>

text \<open>
  The magnitude of a star is a float, positive infinity, or Python's \<^verbatim>\<open>None\<close>
  (for INDEF); \<open>None\<close> is the \<open>None\<close> of the option type.
\<close>

datatype pyfloat = Finite real | Infinity

text \<open>
  The attributes that \<^verbatim>\<open>QPhotResult.__init__\<close> sets (qphot.py, lines 92-97):
  \<^verbatim>\<open>x\<close>, \<^verbatim>\<open>y\<close>, \<^verbatim>\<open>magnitude\<close>, \<^verbatim>\<open>sum\<close>, \<^verbatim>\<open>flux\<close>, \<^verbatim>\<open>stdev\<close>;
  here \<open>xcenter\<close>, \<open>ycenter\<close> and \<open>sum_adu\<close> are the attributes \<^verbatim>\<open>x\<close>, \<^verbatim>\<open>y\<close>
  and \<^verbatim>\<open>sum\<close>. An instance of the class accepts any further attribute; the only
  one that the code ever assigns is \<^verbatim>\<open>mag\<close> (line 515), which is the last field:
  \<open>None\<close> there means that the attribute has not been created.
\<close>

record QPhotResult =
  xcenter :: real
  ycenter :: real
  magnitude :: "pyfloat option"
  sum_adu :: real
  flux :: real
  stdev :: "real option"
  mag :: "pyfloat option"

definition snr :: "QPhotResult \<Rightarrow> real \<Rightarrow> fault + real" where
  "snr self gain =
     (if gain \<le> 0 then Inl ValueError
      else if sum_adu self = 0 then Inr 0
      else if sum_adu self < 0
        then Inr (- (\<bar>flux self * gain\<bar> / sqrt \<bar>sum_adu self * gain\<bar>))
        else Inr ((flux self * gain) / sqrt (sum_adu self * gain)))"



section \<open>qphot.py: QPhot.run\<close>

text \<open>
  A coordinate of the image: an object with the attributes \<^verbatim>\<open>x\<close> and \<^verbatim>\<open>y\<close>
  (the class Pixel is not defined in the files at hand; the code reads and assigns
  exactly these two attributes).
\<close>

record Pixel =
  pixel_x :: real
  pixel_y :: real

text \<open>\<^verbatim>\<open>line.split()\<close>: the maximal runs of characters that are not whitespace.\<close>

definition is_space :: "char \<Rightarrow> bool" where
  "is_space c = (c \<in> set [CHR '' '', CHR 0x09, CHR 0x0A, CHR 0x0B, CHR 0x0C, CHR 0x0D])"

fun split_from :: "string \<Rightarrow> string \<Rightarrow> string list" where
  "split_from word [] = (if word = [] then [] else [rev word])"
| "split_from word (c # cs) =
     (if is_space c
      then (if word = [] then split_from [] cs else rev word # split_from [] cs)
      else split_from (c # word) cs)"

definition str_split :: "string \<Rightarrow> string list" where
  "str_split line = split_from [] line"

text \<open>\<^verbatim>\<open>xs[i]\<close> for an index that is not negative.\<close>

definition item :: "'a list \<Rightarrow> nat \<Rightarrow> fault + 'a" where
  "item xs i = (if i < length xs then Inr (xs ! i) else Inl IndexError)"

text \<open>
  \<^verbatim>\<open>float(s)\<close>. The parser of Python is the parameter \<open>pyfloat\<close>, which returns
  \<open>None\<close> where \<^verbatim>\<open>float\<close> raises ValueError.
\<close>

definition to_float :: "(string \<Rightarrow> real option) \<Rightarrow> string \<Rightarrow> fault + real" where
  "to_float pyfloat s = (case pyfloat s of None \<Rightarrow> Inl ValueError | Some v \<Rightarrow> Inr v)"

text \<open>
  The pattern of lines 329-334 and 339-344:
  \<^verbatim>\<open>try: v = float(s)  except ValueError: assert s == 'INDEF'; v = None\<close>
\<close>

definition float_or_indef ::
  "bool \<Rightarrow> (string \<Rightarrow> real option) \<Rightarrow> string \<Rightarrow> fault + real option" where
  "float_or_indef debug pyfloat s =
     (case pyfloat s of
        Some v \<Rightarrow> Inr (Some v)
      | None \<Rightarrow> bind_fault (py_assert debug (s = ''INDEF'')) (\<lambda>_. Inr None))"

definition epsilon :: real where
  "epsilon = 1 / 1000"

text \<open>
  The body of the loop of \<^verbatim>\<open>QPhot.run\<close> (lines 318-350), up to the result that is
  appended: one line of the output of txdump and the coordinate that goes with it.
\<close>

definition parse_line ::
  "bool \<Rightarrow> (string \<Rightarrow> real option) \<Rightarrow> string \<Rightarrow> Pixel \<Rightarrow> fault + QPhotResult" where
  "parse_line debug pyfloat line pixel =
     (let splitted_line = str_split line in
      bind_fault (item splitted_line 0) (\<lambda>s0.
      bind_fault (to_float pyfloat s0) (\<lambda>xc.
      bind_fault (item splitted_line 1) (\<lambda>s1.
      bind_fault (to_float pyfloat s1) (\<lambda>yc.
      bind_fault (py_assert debug (\<bar>xc - pixel_x pixel\<bar> < epsilon)) (\<lambda>_.
      bind_fault (py_assert debug (\<bar>yc - pixel_y pixel\<bar> < epsilon)) (\<lambda>_.
      bind_fault (item splitted_line 2) (\<lambda>mag_str.
      bind_fault (float_or_indef debug pyfloat mag_str) (\<lambda>m.
      bind_fault (item splitted_line 3) (\<lambda>s3.
      bind_fault (to_float pyfloat s3) (\<lambda>sum'.
      bind_fault (item splitted_line 4) (\<lambda>s4.
      bind_fault (to_float pyfloat s4) (\<lambda>fl.
      bind_fault (item splitted_line 5) (\<lambda>stdev_str.
      bind_fault (float_or_indef debug pyfloat stdev_str) (\<lambda>sd.
        Inr \<lparr>xcenter = xc, ycenter = yc, magnitude = map_option Finite m,
             sum_adu = sum', flux = fl, stdev = sd, mag = None\<rparr>)))))))))))))))"

text \<open>
  The loop \<^verbatim>\<open>for line, pixel in zip(txdump_lines, pixels)\<close>; the last argument is
  the instance, a list to which every result is appended.
\<close>

fun parse_lines ::
  "bool \<Rightarrow> (string \<Rightarrow> real option) \<Rightarrow> (string \<times> Pixel) list \<Rightarrow> QPhotResult list
   \<Rightarrow> fault + QPhotResult list" where
  "parse_lines debug pyfloat [] self = Inr self"
| "parse_lines debug pyfloat ((line, pixel) # rest) self =
     bind_fault (parse_line debug pyfloat line pixel) (\<lambda>star_phot.
       parse_lines debug pyfloat rest (self @ [star_phot]))"

text \<open>
  \<^verbatim>\<open>QPhot.run\<close>. The external tools are parameters: \<open>sextractor\<close> is the list of
  coordinates that \<^verbatim>\<open>FITSeeingImage(...).coordinates()\<close> returns, and \<open>qphot_txdump\<close>
  maps the coordinates written to the coordinates file to the lines read back from the
  output of txdump (lines 257-314); either may raise. The instance is emptied first
  (\<^verbatim>\<open>self.clear()\<close>). The result is the final content of the instance together with
  the number returned, \<^verbatim>\<open>len(self)\<close>.
\<close>

definition QPhot_run ::
  "bool \<Rightarrow> (string \<Rightarrow> real option) \<Rightarrow> (fault + Pixel list) \<Rightarrow>
   (Pixel list \<Rightarrow> fault + string list) \<Rightarrow> Pixel list option
   \<Rightarrow> fault + (QPhotResult list \<times> nat)" where
  "QPhot_run debug pyfloat sextractor qphot_txdump pixels =
     bind_fault (case pixels of
                   None \<Rightarrow> sextractor
                 | Some ps \<Rightarrow> if ps = [] then sextractor else Inr ps) (\<lambda>pixels'.
     bind_fault (qphot_txdump pixels') (\<lambda>txdump_lines.
     bind_fault (py_assert debug (length txdump_lines = length pixels')) (\<lambda>_.
     bind_fault (parse_lines debug pyfloat (zip txdump_lines pixels') []) (\<lambda>self.
       Inr (self, length self)))))"


subsection \<open>A sample parser\<close>

text \<open>For the examples: \<^verbatim>\<open>float\<close> on the few strings that they use.\<close>

definition pyfloat_ex :: "string \<Rightarrow> real option" where
  "pyfloat_ex = map_of [(''9.0'', 9), (''11.0'', 11), (''12.0'', 12), (''15.0'', 15),
     (''49.0'', 49), (''52.0'', 52), (''99.0'', 99), (''400.0'', 400), (''900.0'', 900),
     (''2.0'', 2)]"


section \<open>qphot.py: the steps of run\<close>

subsection \<open>Registration (lines 436-439)\<close>

text \<open>
  The coordinates are objects that the loop of line 437 assigns to, so they live in a
  store: the object at address \<open>a\<close> is \<open>h ! a\<close>, and a Python list of coordinates is a
  list of addresses. \<^verbatim>\<open>copy.deepcopy\<close> copies every object once: its memo maps the
  address of an object that has been copied to the address of the copy, which is used
  again when the same object comes a second time.
\<close>

type_synonym heap = "Pixel list"

fun deepcopy_items ::
  "heap \<Rightarrow> (nat \<times> nat) list \<Rightarrow> nat list \<Rightarrow> heap \<times> (nat \<times> nat) list \<times> nat list" where
  "deepcopy_items h memo [] = (h, memo, [])"
| "deepcopy_items h memo (a # as) =
     (case map_of memo a of
        Some a' \<Rightarrow>
          (case deepcopy_items h memo as of (h', memo', bs) \<Rightarrow> (h', memo', a' # bs))
      | None \<Rightarrow>
          (case deepcopy_items (h @ [h ! a]) ((a, length h) # memo) as of
             (h', memo', bs) \<Rightarrow> (h', memo', length h # bs)))"

definition deepcopy :: "heap \<Rightarrow> nat list \<Rightarrow> heap \<times> nat list" where
  "deepcopy h xs = (case deepcopy_items h [] xs of (h', memo', ys) \<Rightarrow> (h', ys))"

text \<open>The loop of lines 437-439; \<open>dx\<close> and \<open>dy\<close> are \<^verbatim>\<open>xml_offset.x\<close> and \<^verbatim>\<open>xml_offset.y\<close>.\<close>

fun shift_loop :: "heap \<Rightarrow> nat list \<Rightarrow> real \<Rightarrow> real \<Rightarrow> heap" where
  "shift_loop h [] dx dy = h"
| "shift_loop h (a # as) dx dy =
     shift_loop
       (h[a := (h ! a)\<lparr>pixel_x := pixel_x (h ! a) + dx, pixel_y := pixel_y (h ! a) + dy\<rparr>])
       as dx dy"

definition shift_pixels :: "heap \<Rightarrow> nat list \<Rightarrow> real \<Rightarrow> real \<Rightarrow> heap \<times> nat list" where
  "shift_pixels h reference_pixels dx dy =
     (case deepcopy h reference_pixels of
        (h', list_of_shifted_pixels) \<Rightarrow>
          (shift_loop h' list_of_shifted_pixels dx dy, list_of_shifted_pixels))"

text \<open>The coordinates that a list of addresses denotes in a store.\<close>

definition coords :: "heap \<Rightarrow> nat list \<Rightarrow> (real \<times> real) list" where
  "coords h xs = map (\<lambda>a. (pixel_x (h ! a), pixel_y (h ! a))) xs"

subsection \<open>The image of the saturation mask (lines 466-474)\<close>

text \<open>\<^verbatim>\<open>keyword.upper()\<close> on ASCII.\<close>

definition upper_char :: "char \<Rightarrow> char" where
  "upper_char c =
     (case map_of (zip ''abcdefghijklmnopqrstuvwxyz'' ''ABCDEFGHIJKLMNOPQRSTUVWXYZ'') c of
        Some u \<Rightarrow> u
      | None \<Rightarrow> c)"

text \<open>
  \<^verbatim>\<open>FITSImage.read_keyword\<close> (fitsimage.py, lines 195-218); the header of the image
  is a map from keywords to values.
\<close>

definition read_keyword :: "(string \<rightharpoonup> string) \<Rightarrow> string option \<Rightarrow> fault + string" where
  "read_keyword header keyword =
     (case keyword of
        None \<Rightarrow> Inl TypeError
      | Some k \<Rightarrow>
          if k = [] then Inl ValueError
          else (case header (map upper_char k) of
                  None \<Rightarrow> Inl KeyError
                | Some v \<Rightarrow> Inr v))"

text \<open>
  Lines 466-474: the path of the image from which the saturation mask is built, the
  operand \<^verbatim>\<open>a\<close> of imexpr. \<open>header\<close> is the header of the shifted image,
  \<open>path_exists\<close> is \<^verbatim>\<open>os.path.exists\<close>, and \<open>shifted_image_path\<close> is the path of the
  image on which photometry has been done.
\<close>

definition orig_img_path ::
  "(string \<rightharpoonup> string) \<Rightarrow> (string \<Rightarrow> bool) \<Rightarrow> string \<Rightarrow> string option \<Rightarrow> fault + string" where
  "orig_img_path header path_exists shifted_image_path uncimgk =
     (if uncimgk = None \<or> uncimgk = Some []
      then Inr shifted_image_path
      else bind_fault (read_keyword header uncimgk) (\<lambda>path.
             if \<not> path_exists path then Inl IOError else Inr path))"

subsection \<open>Saturation (lines 509-515)\<close>

text \<open>
  The loop \<^verbatim>\<open>for star_phot, star_mask in zip(img_qphot, mask_qphot)\<close>, which assigns
  to the results of \<open>img_qphot\<close> in place; the results that \<^verbatim>\<open>zip\<close> does not reach
  stay as they are. Line 515 assigns the attribute \<^verbatim>\<open>mag\<close>.
\<close>

fun classify_loop ::
  "bool \<Rightarrow> QPhotResult list \<Rightarrow> QPhotResult list \<Rightarrow> fault + QPhotResult list" where
  "classify_loop debug [] mask_qphot = Inr []"
| "classify_loop debug (star_phot # img_qphot) [] = Inr (star_phot # img_qphot)"
| "classify_loop debug (star_phot # img_qphot) (star_mask # mask_qphot) =
     bind_fault (py_assert debug (xcenter star_phot = xcenter star_mask)) (\<lambda>_.
     bind_fault (py_assert debug (ycenter star_phot = ycenter star_mask)) (\<lambda>_.
     bind_fault (classify_loop debug img_qphot mask_qphot) (\<lambda>rest.
       Inr ((if flux star_mask > 0 then star_phot\<lparr>mag := Some Infinity\<rparr> else star_phot)
            # rest))))"

definition classify ::
  "bool \<Rightarrow> QPhotResult list \<Rightarrow> QPhotResult list \<Rightarrow> fault + QPhotResult list" where
  "classify debug img_qphot mask_qphot =
     bind_fault (py_assert debug (length img_qphot = length mask_qphot)) (\<lambda>_.
       classify_loop debug img_qphot mask_qphot)"


section \<open>fitsimage.py: FITSImage.stable_overscan\<close>

text \<open>
  The statistics of IRAF and \<^verbatim>\<open>methods.percentage_change\<close> are parameters:
  \<open>imstat statistic x1 x2 y1 y2\<close> is the value that \<^verbatim>\<open>self.imstat\<close> returns for the
  section of the image, and \<open>percentage_change old new\<close> is the value that the function
  of that name returns. Both are taken to return; what they raise would leave
  \<^verbatim>\<open>stable_overscan\<close>, which has no handler, unchanged. The printing and the warnings
  are left out.

  The \<^verbatim>\<open>while True\<close> loop is left by one of its two \<^verbatim>\<open>return\<close> statements; the
  outcome of the loop says by which, with the values of \<^verbatim>\<open>x1, x2, y1, y2\<close> there.
  A loop that runs forever is \<open>None\<close>.
\<close>

datatype outcome = Converged int int int int | Exhausted int int int int

partial_function (option) shrink_loop ::
  "(string \<Rightarrow> int \<Rightarrow> int \<Rightarrow> int \<Rightarrow> int \<Rightarrow> real) \<Rightarrow> (real \<Rightarrow> real \<Rightarrow> real) \<Rightarrow>
   int \<Rightarrow> int \<Rightarrow> int \<Rightarrow> int \<Rightarrow> real \<Rightarrow> real \<Rightarrow> real \<Rightarrow> int \<Rightarrow> outcome option" where
  "shrink_loop imstat percentage_change x1 x2 y1 y2 mean stddev threshold offset =
     (let x1' = x1 + offset; x2' = x2 - offset; y1' = y1 + offset; y2' = y2 - offset in
      if x1' > x2' \<or> y1' > y2' then Some (Exhausted x1' x2' y1' y2')
      else
        let new_mean = imstat ''mean'' x1' x2' y1' y2';
            new_stddev = imstat ''stddev'' x1' x2' y1' y2';
            mean_pc = \<bar>percentage_change mean new_mean\<bar>;
            stddev_pc = \<bar>percentage_change stddev new_stddev\<bar>
        in if stddev_pc \<le> threshold \<and> mean_pc \<le> threshold
           then Some (Converged x1' x2' y1' y2')
           else shrink_loop imstat percentage_change x1' x2' y1' y2' new_mean new_stddev
                  threshold offset)"

text \<open>
  The method: the statistics of the initial section, the loop, and at exhaustion the
  recursive call of lines 791-792, with the variables \<^verbatim>\<open>x1, x2, y1, y2\<close> as the loop
  left them. A call that does not return is \<open>None\<close>.
\<close>

partial_function (option) stable_overscan ::
  "(string \<Rightarrow> int \<Rightarrow> int \<Rightarrow> int \<Rightarrow> int \<Rightarrow> real) \<Rightarrow> (real \<Rightarrow> real \<Rightarrow> real) \<Rightarrow>
   int \<Rightarrow> int \<Rightarrow> int \<Rightarrow> int \<Rightarrow> real \<Rightarrow> int \<Rightarrow> (int \<times> int \<times> int \<times> int) option" where
  "stable_overscan imstat percentage_change x1 x2 y1 y2 threshold offset =
     (let mean = imstat ''mean'' x1 x2 y1 y2;
          stddev = imstat ''stddev'' x1 x2 y1 y2
      in case shrink_loop imstat percentage_change x1 x2 y1 y2 mean stddev threshold offset of
           None \<Rightarrow> None
         | Some (Converged a b c d) \<Rightarrow> Some (a, b, c, d)
         | Some (Exhausted a b c d) \<Rightarrow>
             stable_overscan imstat percentage_change a b c d (threshold * 2) offset)"

text \<open>
  The same method with two ghost results: the threshold of the call whose loop
  converged, and the number of recursive calls made on the way.
\<close>

partial_function (option) stable_overscan_thr ::
  "(string \<Rightarrow> int \<Rightarrow> int \<Rightarrow> int \<Rightarrow> int \<Rightarrow> real) \<Rightarrow> (real \<Rightarrow> real \<Rightarrow> real) \<Rightarrow>
   int \<Rightarrow> int \<Rightarrow> int \<Rightarrow> int \<Rightarrow> real \<Rightarrow> int
   \<Rightarrow> ((int \<times> int \<times> int \<times> int) \<times> real \<times> nat) option" where
  "stable_overscan_thr imstat percentage_change x1 x2 y1 y2 threshold offset =
     (let mean = imstat ''mean'' x1 x2 y1 y2;
          stddev = imstat ''stddev'' x1 x2 y1 y2
      in case shrink_loop imstat percentage_change x1 x2 y1 y2 mean stddev threshold offset of
           None \<Rightarrow> None
         | Some (Converged a b c d) \<Rightarrow> Some ((a, b, c, d), threshold, 0)
         | Some (Exhausted a b c d) \<Rightarrow>
             Option.bind
               (stable_overscan_thr imstat percentage_change a b c d (threshold * 2) offset)
               (\<lambda>(r, t, k). Some (r, t, Suc k)))"


subsection \<open>A sample image\<close>

text \<open>
  Statistics for the examples: the mean and the standard deviation of a section are
  100, 250 or 1000, by the left column of the section; the change is the relative one.
\<close>

definition imstat_ex :: "string \<Rightarrow> int \<Rightarrow> int \<Rightarrow> int \<Rightarrow> int \<Rightarrow> real" where
  "imstat_ex statistic x1 x2 y1 y2 = (if x1 = 1 then 100 else if x1 = 2 then 250 else 1000)"

definition percentage_change_ex :: "real \<Rightarrow> real \<Rightarrow> real" where
  "percentage_change_ex old new = (new - old) / \<bar>old\<bar>"


section \<open>Properties of snr\<close>





text \<open>
  C8. \<open>snr\<close> raises ValueError for every gain \<open>g \<le> 0\<close>, whatever the sum and the flux
  of the result are, and never raises it for a gain \<open>g > 0\<close>.
\<close>

theorem snr_gain_check:
  "(g \<le> 0 \<longrightarrow> snr r g = Inl ValueError) \<and> (0 < g \<longrightarrow> snr r g \<noteq> Inl ValueError)"
  by (simp add: snr_def)

theorem snr_gain_check_witness:
  "snr \<lparr>xcenter = 0, ycenter = 0, magnitude = None, sum_adu = 4, flux = 2,
        stdev = None, mag = None\<rparr> 0 = Inl ValueError
   \<and> snr \<lparr>xcenter = 0, ycenter = 0, magnitude = None, sum_adu = 4, flux = 2,
        stdev = None, mag = None\<rparr> 1 \<noteq> Inl ValueError"
  using snr_gain_check [of 0 "\<lparr>xcenter = 0, ycenter = 0, magnitude = None, sum_adu = 4,
        flux = 2, stdev = None, mag = None\<rparr>"]
    snr_gain_check [of 1 "\<lparr>xcenter = 0, ycenter = 0, magnitude = None, sum_adu = 4,
        flux = 2, stdev = None, mag = None\<rparr>"]
  by simp

section \<open>Properties of QPhot.run\<close>

lemma bind_fault_Inr:
  "bind_fault m f = Inr r \<longleftrightarrow> (\<exists>v. m = Inr v \<and> f v = Inr r)"
  by (cases m) (simp_all add: bind_fault_def)

lemma bind_fault_Inl [simp]: "bind_fault (Inl e) f = Inl e"
  by (simp add: bind_fault_def)

lemma bind_fault_Inr_simp [simp]: "bind_fault (Inr v) f = f v"
  by (simp add: bind_fault_def)

lemma py_assert_Inr: "py_assert debug c = Inr u \<longleftrightarrow> (debug \<longrightarrow> c)"
  by (simp add: py_assert_def)

lemma parse_line_center:
  assumes "parse_line True pyfloat line pixel = Inr r"
  shows "\<bar>xcenter r - pixel_x pixel\<bar> < epsilon \<and> \<bar>ycenter r - pixel_y pixel\<bar> < epsilon"
  using assms unfolding parse_line_def Let_def bind_fault_Inr py_assert_Inr
  by auto

lemma parse_line_mismatch:
  assumes "item (str_split line) 0 = Inr s0" and "pyfloat s0 = Some xc"
    and "item (str_split line) 1 = Inr s1" and "pyfloat s1 = Some yc"
    and "\<not> \<bar>xc - pixel_x pixel\<bar> < epsilon \<or> \<not> \<bar>yc - pixel_y pixel\<bar> < epsilon"
  shows "parse_line True pyfloat line pixel = Inl AssertionError"
  using assms by (auto simp: parse_line_def to_float_def py_assert_def)

lemma parse_lines_Inr:
  "parse_lines debug pyfloat zs self = Inr out \<Longrightarrow>
   \<exists>rs. out = self @ rs \<and> length rs = length zs \<and>
        (\<forall>i < length zs. parse_line debug pyfloat (fst (zs ! i)) (snd (zs ! i)) = Inr (rs ! i))"
proof (induction debug pyfloat zs self arbitrary: out rule: parse_lines.induct)
  case (1 debug pyfloat self)
  then show ?case by simp
next
  case (2 debug pyfloat line pixel rest self)
  from "2.prems" obtain r where
    r: "parse_line debug pyfloat line pixel = Inr r"
    and rest: "parse_lines debug pyfloat rest (self @ [r]) = Inr out"
    by (auto simp: bind_fault_Inr)
  from "2.IH" [OF rest] obtain rs where
    rs: "out = (self @ [r]) @ rs" "length rs = length rest"
      "\<forall>i < length rest. parse_line debug pyfloat (fst (rest ! i)) (snd (rest ! i)) = Inr (rs ! i)"
    by blast
  have "\<forall>i < length ((line, pixel) # rest).
      parse_line debug pyfloat (fst (((line, pixel) # rest) ! i)) (snd (((line, pixel) # rest) ! i))
        = Inr ((r # rs) ! i)"
    using r rs(3) by (auto simp: nth_Cons split: nat.splits)
  with rs(1,2) show ?case
    by (intro exI [of _ "r # rs"]) simp
qed

lemma parse_lines_first_fault:
  "i < length zs \<Longrightarrow>
   \<forall>j < i. \<exists>r. parse_line debug pyfloat (fst (zs ! j)) (snd (zs ! j)) = Inr r \<Longrightarrow>
   parse_line debug pyfloat (fst (zs ! i)) (snd (zs ! i)) = Inl e \<Longrightarrow>
   parse_lines debug pyfloat zs self = Inl e"
proof (induction debug pyfloat zs self arbitrary: i rule: parse_lines.induct)
  case (1 debug pyfloat self)
  then show ?case by simp
next
  case (2 debug pyfloat line pixel rest self)
  show ?case
  proof (cases i)
    case 0
    with "2.prems"(3) show ?thesis by simp
  next
    case (Suc i')
    with "2.prems"(2) obtain r where r: "parse_line debug pyfloat line pixel = Inr r"
      by fastforce
    have "parse_lines debug pyfloat rest (self @ [r]) = Inl e"
    proof (rule "2.IH")
      show "i' < length rest" using "2.prems"(1) Suc by simp
      show "\<forall>j<i'. \<exists>r. parse_line debug pyfloat (fst (rest ! j)) (snd (rest ! j)) = Inr r"
        using "2.prems"(2) Suc by fastforce
      show "parse_line debug pyfloat (fst (rest ! i')) (snd (rest ! i')) = Inl e"
        using "2.prems"(3) Suc by simp
    qed
    with r show ?thesis by simp
  qed
qed

lemma QPhot_run_Inr:
  assumes "ps \<noteq> []"
    and "QPhot_run debug pyfloat sextractor qphot_txdump (Some ps) = Inr (batch, n)"
  shows "\<exists>ls. qphot_txdump ps = Inr ls \<and> (debug \<longrightarrow> length ls = length ps)
      \<and> n = length batch \<and> length batch = min (length ls) (length ps)
      \<and> (\<forall>i < length batch. parse_line debug pyfloat (ls ! i) (ps ! i) = Inr (batch ! i))"
proof -
  from assms obtain ls self where
    ls: "qphot_txdump ps = Inr ls" and len: "debug \<longrightarrow> length ls = length ps"
    and pl: "parse_lines debug pyfloat (zip ls ps) [] = Inr self"
    and res: "batch = self" "n = length self"
    unfolding QPhot_run_def bind_fault_Inr py_assert_Inr by auto
  from parse_lines_Inr [OF pl] have "length self = length (zip ls ps)"
    and "\<forall>i < length (zip ls ps).
          parse_line debug pyfloat (fst (zip ls ps ! i)) (snd (zip ls ps ! i)) = Inr (self ! i)"
    by auto
  with ls len res show ?thesis
    by auto
qed

lemma ex_split_0: "str_split ''12.0 9.0 15.0 900.0 400.0 2.0''
    = [''12.0'', ''9.0'', ''15.0'', ''900.0'', ''400.0'', ''2.0'']"
  by (simp add: str_split_def is_space_def)

lemma ex_split_1: "str_split ''52.0  49.0  INDEF 900.0 400.0 INDEF ''
    = [''52.0'', ''49.0'', ''INDEF'', ''900.0'', ''400.0'', ''INDEF'']"
  by (simp add: str_split_def is_space_def)

lemma ex_split_2: "str_split ''99.0 9.0 15.0 900.0 400.0 2.0''
    = [''99.0'', ''9.0'', ''15.0'', ''900.0'', ''400.0'', ''2.0'']"
  by (simp add: str_split_def is_space_def)

lemma ex_parse_0:
  "parse_line debug pyfloat_ex ''12.0 9.0 15.0 900.0 400.0 2.0'' \<lparr>pixel_x = 12, pixel_y = 9\<rparr>
     = Inr \<lparr>xcenter = 12, ycenter = 9, magnitude = Some (Finite 15), sum_adu = 900,
            flux = 400, stdev = Some 2, mag = None\<rparr>"
  unfolding parse_line_def ex_split_0
  by (simp add: item_def to_float_def pyfloat_ex_def py_assert_def epsilon_def float_or_indef_def)

lemma ex_parse_1:
  "parse_line debug pyfloat_ex ''52.0  49.0  INDEF 900.0 400.0 INDEF ''
      \<lparr>pixel_x = 52, pixel_y = 49\<rparr>
     = Inr \<lparr>xcenter = 52, ycenter = 49, magnitude = None, sum_adu = 900,
            flux = 400, stdev = None, mag = None\<rparr>"
  unfolding parse_line_def ex_split_1
  by (simp add: item_def to_float_def pyfloat_ex_def py_assert_def epsilon_def float_or_indef_def)

lemma ex_parse_2:
  "parse_line False pyfloat_ex ''99.0 9.0 15.0 900.0 400.0 2.0'' \<lparr>pixel_x = 12, pixel_y = 9\<rparr>
     = Inr \<lparr>xcenter = 99, ycenter = 9, magnitude = Some (Finite 15), sum_adu = 900,
            flux = 400, stdev = Some 2, mag = None\<rparr>"
  unfolding parse_line_def ex_split_2
  by (simp add: item_def to_float_def pyfloat_ex_def py_assert_def epsilon_def float_or_indef_def)

lemma ex_run_good:
  "QPhot_run True pyfloat_ex (Inl ToolError)
     (\<lambda>ps. Inr [''12.0 9.0 15.0 900.0 400.0 2.0'',
                 ''52.0  49.0  INDEF 900.0 400.0 INDEF ''])
     (Some [\<lparr>pixel_x = 12, pixel_y = 9\<rparr>, \<lparr>pixel_x = 52, pixel_y = 49\<rparr>])
   = Inr ([\<lparr>xcenter = 12, ycenter = 9, magnitude = Some (Finite 15), sum_adu = 900,
            flux = 400, stdev = Some 2, mag = None\<rparr>,
           \<lparr>xcenter = 52, ycenter = 49, magnitude = None, sum_adu = 900,
            flux = 400, stdev = None, mag = None\<rparr>], 2)"
  by (simp add: QPhot_run_def py_assert_def ex_parse_0 ex_parse_1)

text \<open>
  C3 (amended). With assertions enabled, for every list of \<open>n > 0\<close> coordinates: a
  batch that \<open>QPhot.run\<close> returns has exactly \<open>n\<close> results, the \<open>i\<close>-th of them parsed
  from the \<open>i\<close>-th record for the \<open>i\<close>-th coordinate and within 0.001 pixel of it on
  both axes; if the photometer yields a number of records other than \<open>n\<close>, the call
  raises AssertionError; and if the center parsed from a record is 0.001 pixel or more
  from its coordinate, the call raises instead of returning a batch, and what it raises
  is AssertionError when every record before that one is well formed.
\<close>

theorem QPhot_run_consistency:
  assumes "ps \<noteq> []"
  shows "(QPhot_run True pyfloat sextractor qphot_txdump (Some ps) = Inr (batch, n) \<longrightarrow>
            n = length ps \<and> length batch = length ps \<and>
            (\<exists>ls. qphot_txdump ps = Inr ls \<and> length ls = length ps \<and>
               (\<forall>i < length ps.
                  parse_line True pyfloat (ls ! i) (ps ! i) = Inr (batch ! i)
                  \<and> \<bar>xcenter (batch ! i) - pixel_x (ps ! i)\<bar> < 1 / 1000
                  \<and> \<bar>ycenter (batch ! i) - pixel_y (ps ! i)\<bar> < 1 / 1000)))
       \<and> (qphot_txdump ps = Inr ls \<and> length ls \<noteq> length ps \<longrightarrow>
            QPhot_run True pyfloat sextractor qphot_txdump (Some ps) = Inl AssertionError)
       \<and> (qphot_txdump ps = Inr ls \<and> i < length ps \<and> i < length ls
            \<and> item (str_split (ls ! i)) 0 = Inr s0 \<and> pyfloat s0 = Some xc
            \<and> item (str_split (ls ! i)) 1 = Inr s1 \<and> pyfloat s1 = Some yc
            \<and> (1 / 1000 \<le> \<bar>xc - pixel_x (ps ! i)\<bar> \<or> 1 / 1000 \<le> \<bar>yc - pixel_y (ps ! i)\<bar>) \<longrightarrow>
            (\<exists>e. QPhot_run True pyfloat sextractor qphot_txdump (Some ps) = Inl e)
            \<and> ((\<forall>j < i. \<exists>r. parse_line True pyfloat (ls ! j) (ps ! j) = Inr r) \<longrightarrow>
                 QPhot_run True pyfloat sextractor qphot_txdump (Some ps) = Inl AssertionError))"
proof (intro conjI impI)
  assume run: "QPhot_run True pyfloat sextractor qphot_txdump (Some ps) = Inr (batch, n)"
  from QPhot_run_Inr [OF assms run] obtain ls where
    ls: "qphot_txdump ps = Inr ls" "length ls = length ps" "n = length batch"
      "length batch = min (length ls) (length ps)"
      "\<forall>i < length batch. parse_line True pyfloat (ls ! i) (ps ! i) = Inr (batch ! i)"
    by auto
  from ls show "n = length ps" and len: "length batch = length ps"
    by simp_all
  have "\<forall>i < length ps.
          parse_line True pyfloat (ls ! i) (ps ! i) = Inr (batch ! i)
          \<and> \<bar>xcenter (batch ! i) - pixel_x (ps ! i)\<bar> < 1 / 1000
          \<and> \<bar>ycenter (batch ! i) - pixel_y (ps ! i)\<bar> < 1 / 1000"
    using ls(5) len parse_line_center [of pyfloat] by (auto simp: epsilon_def)
  with ls(1,2) show "\<exists>ls. qphot_txdump ps = Inr ls \<and> length ls = length ps \<and>
               (\<forall>i < length ps.
                  parse_line True pyfloat (ls ! i) (ps ! i) = Inr (batch ! i)
                  \<and> \<bar>xcenter (batch ! i) - pixel_x (ps ! i)\<bar> < 1 / 1000
                  \<and> \<bar>ycenter (batch ! i) - pixel_y (ps ! i)\<bar> < 1 / 1000)"
    by blast
next
  assume "qphot_txdump ps = Inr ls \<and> length ls \<noteq> length ps"
  with assms show "QPhot_run True pyfloat sextractor qphot_txdump (Some ps) = Inl AssertionError"
    by (simp add: QPhot_run_def py_assert_def)
next
  assume h: "qphot_txdump ps = Inr ls \<and> i < length ps \<and> i < length ls
            \<and> item (str_split (ls ! i)) 0 = Inr s0 \<and> pyfloat s0 = Some xc
            \<and> item (str_split (ls ! i)) 1 = Inr s1 \<and> pyfloat s1 = Some yc
            \<and> (1 / 1000 \<le> \<bar>xc - pixel_x (ps ! i)\<bar> \<or> 1 / 1000 \<le> \<bar>yc - pixel_y (ps ! i)\<bar>)"
  then have bad: "parse_line True pyfloat (ls ! i) (ps ! i) = Inl AssertionError"
    by (intro parse_line_mismatch [of _ s0 _ xc s1 yc]) (auto simp: epsilon_def)
  show "\<exists>e. QPhot_run True pyfloat sextractor qphot_txdump (Some ps) = Inl e"
  proof (cases "QPhot_run True pyfloat sextractor qphot_txdump (Some ps)")
    case (Inl e)
    then show ?thesis by blast
  next
    case (Inr res)
    obtain batch n where "res = (batch, n)"
      by (cases res)
    with Inr QPhot_run_Inr [OF assms, of True pyfloat sextractor qphot_txdump batch n] h bad
    show ?thesis by auto
  qed
  show "QPhot_run True pyfloat sextractor qphot_txdump (Some ps) = Inl AssertionError"
    if first: "\<forall>j < i. \<exists>r. parse_line True pyfloat (ls ! j) (ps ! j) = Inr r"
  proof (cases "length ls = length ps")
    case False
    with assms h show ?thesis
      by (simp add: QPhot_run_def py_assert_def)
  next
    case True
    have "parse_lines True pyfloat (zip ls ps) [] = Inl AssertionError"
      using h True first bad by (intro parse_lines_first_fault [of i]) auto
    with assms h True show ?thesis
      by (simp add: QPhot_run_def py_assert_def)
  qed
qed

theorem QPhot_run_consistency_witness:
  "QPhot_run True pyfloat_ex (Inl ToolError)
     (\<lambda>ps. Inr [''12.0 9.0 15.0 900.0 400.0 2.0'', ''52.0  49.0  INDEF 900.0 400.0 INDEF ''])
     (Some [\<lparr>pixel_x = 12, pixel_y = 9\<rparr>, \<lparr>pixel_x = 52, pixel_y = 49\<rparr>])
   = Inr ([\<lparr>xcenter = 12, ycenter = 9, magnitude = Some (Finite 15), sum_adu = 900,
            flux = 400, stdev = Some 2, mag = None\<rparr>,
           \<lparr>xcenter = 52, ycenter = 49, magnitude = None, sum_adu = 900,
            flux = 400, stdev = None, mag = None\<rparr>], 2)
   \<and> length [\<lparr>xcenter = 12, ycenter = 9, magnitude = Some (Finite 15), sum_adu = 900,
            flux = 400, stdev = Some 2, mag = None\<rparr>,
           \<lparr>xcenter = 52, ycenter = 49, magnitude = None, sum_adu = 900,
            flux = 400, stdev = None, mag = None\<rparr>]
     = length [\<lparr>pixel_x = 12, pixel_y = 9\<rparr>, \<lparr>pixel_x = 52, pixel_y = 49\<rparr>]
   \<and> QPhot_run True pyfloat_ex (Inl ToolError)
       (\<lambda>ps. Inr [''12.0 9.0 15.0 900.0 400.0 2.0''])
       (Some [\<lparr>pixel_x = 12, pixel_y = 9\<rparr>, \<lparr>pixel_x = 52, pixel_y = 49\<rparr>])
     = Inl AssertionError
   \<and> QPhot_run True pyfloat_ex (Inl ToolError)
       (\<lambda>ps. Inr [''12.0 9.0 15.0 900.0 400.0 2.0'', ''99.0 9.0 15.0 900.0 400.0 2.0''])
       (Some [\<lparr>pixel_x = 12, pixel_y = 9\<rparr>, \<lparr>pixel_x = 52, pixel_y = 49\<rparr>])
     = Inl AssertionError"
proof -
  let ?ps = "[\<lparr>pixel_x = 12, pixel_y = 9\<rparr>, \<lparr>pixel_x = 52, pixel_y = 49\<rparr>]"
  let ?l0 = "''12.0 9.0 15.0 900.0 400.0 2.0''"
  let ?l2 = "''99.0 9.0 15.0 900.0 400.0 2.0''"
  have ne: "?ps \<noteq> []"
    by simp
  note good = QPhot_run_consistency [OF ne, THEN conjunct1, rule_format, OF ex_run_good]
  have count: "QPhot_run True pyfloat_ex (Inl ToolError) (\<lambda>ps. Inr [?l0]) (Some ?ps)
      = Inl AssertionError"
    by (rule QPhot_run_consistency [OF ne, THEN conjunct2, THEN conjunct1, rule_format,
          where ls = "[?l0]"]) simp
  have center: "QPhot_run True pyfloat_ex (Inl ToolError) (\<lambda>ps. Inr [?l0, ?l2]) (Some ?ps)
      = Inl AssertionError"
    by (rule QPhot_run_consistency [OF ne, THEN conjunct2, THEN conjunct2, rule_format,
          THEN conjunct2, rule_format, where i = 1 and ls = "[?l0, ?l2]" and ?s0.0 = "''99.0''"
          and xc = 99 and ?s1.0 = "''9.0''" and yc = 9])
       (simp_all add: ex_split_2 item_def ex_parse_0, simp_all add: pyfloat_ex_def)
  from ex_run_good good count center show ?thesis
    by simp
qed

text \<open>
  C3 as stated fails when assertions are disabled: both checks are \<^verbatim>\<open>assert\<close>
  statements (the second one under \<^verbatim>\<open>if __debug__\<close>), \<^verbatim>\<open>zip\<close> stops at the shorter
  list, and one record for two coordinates, with a center 87 pixels away, gives a
  batch of one result.
\<close>

theorem QPhot_run_without_assertions:
  "QPhot_run False pyfloat_ex (Inl ToolError)
     (\<lambda>ps. Inr [''99.0 9.0 15.0 900.0 400.0 2.0''])
     (Some [\<lparr>pixel_x = 12, pixel_y = 9\<rparr>, \<lparr>pixel_x = 52, pixel_y = 49\<rparr>])
   = Inr ([\<lparr>xcenter = 99, ycenter = 9, magnitude = Some (Finite 15), sum_adu = 900,
            flux = 400, stdev = Some 2, mag = None\<rparr>], 1)"
  by (simp add: QPhot_run_def py_assert_def ex_parse_2)


section \<open>Properties of the steps of run\<close>

lemma shift_loop_length: "length (shift_loop h bs dx dy) = length h"
  by (induction bs arbitrary: h) simp_all

lemma shift_loop_frame: "i \<notin> set bs \<Longrightarrow> shift_loop h bs dx dy ! i = h ! i"
  by (induction bs arbitrary: h) auto

lemma shift_loop_distinct:
  "distinct bs \<Longrightarrow> b \<in> set bs \<Longrightarrow> b < length h \<Longrightarrow>
   shift_loop h bs dx dy ! b = (h ! b)\<lparr>pixel_x := pixel_x (h ! b) + dx, pixel_y := pixel_y (h ! b) + dy\<rparr>"
proof (induction bs arbitrary: h)
  case Nil
  then show ?case by simp
next
  case (Cons a bs)
  show ?case
  proof (cases "b = a")
    case True
    with Cons.prems have "b \<notin> set bs" by simp
    with True Cons.prems show ?thesis
      by (simp add: shift_loop_frame)
  next
    case False
    with Cons.prems have "b \<in> set bs" "distinct bs" by simp_all
    with Cons.IH [of "h[a := (h ! a)\<lparr>pixel_x := pixel_x (h ! a) + dx, pixel_y := pixel_y (h ! a) + dy\<rparr>]"]
      False Cons.prems(3)
    show ?thesis by simp
  qed
qed

lemma deepcopy_items_fresh:
  assumes "deepcopy_items h memo as = (h', memo', bs)"
    and "\<forall>v \<in> snd ` set memo. n \<le> v" and "n \<le> length h"
  shows "take (length h) h' = h \<and> length h \<le> length h' \<and> (\<forall>b \<in> set bs. n \<le> b)"
  using assms
proof (induction as arbitrary: h memo h' memo' bs)
  case Nil
  then show ?case by simp
next
  case (Cons a as)
  show ?case
  proof (cases "map_of memo a")
    case None
    with Cons.prems(1) obtain h1 m1 b1 where
      rec: "deepcopy_items (h @ [h ! a]) ((a, length h) # memo) as = (h1, m1, b1)"
      and res: "h' = h1" "bs = length h # b1"
      by (auto split: prod.splits)
    from Cons.prems(2,3) have "\<forall>v \<in> snd ` set ((a, length h) # memo). n \<le> v"
      "n \<le> length (h @ [h ! a])"
      by auto
    from Cons.IH [OF rec this]
    have "take (Suc (length h)) h1 = h @ [h ! a]" "Suc (length h) \<le> length h1"
      "\<forall>b \<in> set b1. n \<le> b"
      by simp_all
    moreover from this(1) have "take (length h) (take (Suc (length h)) h1) = h"
      by simp
    then have "take (length h) h1 = h"
      by (simp add: min_def)
    ultimately show ?thesis
      using res Cons.prems(3) by simp
  next
    case (Some a')
    with Cons.prems(1) obtain h1 m1 b1 where
      rec: "deepcopy_items h memo as = (h1, m1, b1)"
      and res: "h' = h1" "bs = a' # b1"
      by (auto split: prod.splits)
    from Some have "a' \<in> snd ` set memo"
      by (force dest: map_of_SomeD)
    with Cons.prems(2) have "n \<le> a'"
      by blast
    with Cons.IH [OF rec Cons.prems(2,3)] res show ?thesis
      by simp
  qed
qed

lemma deepcopy_items_distinct:
  assumes "deepcopy_items h memo as = (h', memo', bs)"
    and "distinct as" and "set as \<inter> fst ` set memo = {}" and "\<forall>a \<in> set as. a < length h"
  shows "h' = h @ map (\<lambda>a. h ! a) as \<and> bs = [length h ..< length h + length as]"
  using assms
proof (induction as arbitrary: h memo h' memo' bs)
  case Nil
  then show ?case by simp
next
  case (Cons a as)
  from Cons.prems(3) have "map_of memo a = None"
    by (auto simp: map_of_eq_None_iff)
  with Cons.prems(1) obtain h1 m1 b1 where
    rec: "deepcopy_items (h @ [h ! a]) ((a, length h) # memo) as = (h1, m1, b1)"
    and res: "h' = h1" "bs = length h # b1"
    by (auto split: prod.splits)
  from Cons.prems have "distinct as" "set as \<inter> fst ` set ((a, length h) # memo) = {}"
    "\<forall>a' \<in> set as. a' < length (h @ [h ! a])"
    by auto
  from Cons.IH [OF rec this]
  have h1: "h1 = (h @ [h ! a]) @ map (\<lambda>a'. (h @ [h ! a]) ! a') as"
    and b1: "b1 = [length (h @ [h ! a]) ..< length (h @ [h ! a]) + length as]"
    by simp_all
  have "map (\<lambda>a'. (h @ [h ! a]) ! a') as = map (\<lambda>a'. h ! a') as"
    using Cons.prems(4) by (simp add: nth_append)
  moreover have "[length h ..< length h + length (a # as)]
      = length h # [Suc (length h) ..< length h + length (a # as)]"
    by (rule upt_conv_Cons) simp
  ultimately show ?case
    unfolding res h1 b1 by (simp del: upt_Suc)
qed

lemma shift_pixels_frame:
  assumes "shift_pixels h refs dx dy = (h', shifted)" and "a < length h"
  shows "h' ! a = h ! a"
proof -
  from assms(1) obtain h1 m1 where
    dc: "deepcopy_items h [] refs = (h1, m1, shifted)" and h': "h' = shift_loop h1 shifted dx dy"
    by (auto simp: shift_pixels_def deepcopy_def split: prod.splits)
  from deepcopy_items_fresh [OF dc, of "length h"]
  have pre: "take (length h) h1 = h" and new: "\<forall>b \<in> set shifted. length h \<le> b"
    by simp_all
  from new assms(2) have "a \<notin> set shifted"
    by auto
  then have "h' ! a = h1 ! a"
    unfolding h' by (rule shift_loop_frame)
  also from assms(2) have "h1 ! a = take (length h) h1 ! a"
    by simp
  finally show ?thesis
    using pre by simp
qed

lemma shift_pixels_distinct:
  assumes "shift_pixels h refs dx dy = (h', shifted)"
    and "distinct refs" and "\<forall>a \<in> set refs. a < length h"
  shows "shifted = [length h ..< length h + length refs]"
    and "coords h' shifted = map (\<lambda>(x, y). (x + dx, y + dy)) (coords h refs)"
proof -
  from assms(1) obtain h1 m1 where
    dc: "deepcopy_items h [] refs = (h1, m1, shifted)" and h': "h' = shift_loop h1 shifted dx dy"
    by (auto simp: shift_pixels_def deepcopy_def split: prod.splits)
  from deepcopy_items_distinct [OF dc assms(2) _ assms(3)]
  have h1: "h1 = h @ map (\<lambda>a. h ! a) refs"
    and sh: "shifted = [length h ..< length h + length refs]"
    by simp_all
  show "shifted = [length h ..< length h + length refs]"
    by (rule sh)
  show "coords h' shifted = map (\<lambda>(x, y). (x + dx, y + dy)) (coords h refs)"
  proof (rule nth_equalityI)
    show "length (coords h' shifted) = length (map (\<lambda>(x, y). (x + dx, y + dy)) (coords h refs))"
      by (simp add: coords_def sh)
  next
    fix i
    assume "i < length (coords h' shifted)"
    then have i: "i < length refs"
      by (simp add: coords_def sh)
    then have b: "shifted ! i = length h + i"
      by (simp add: sh)
    have "distinct shifted" "length h + i \<in> set shifted" "length h + i < length h1"
      using i by (simp_all add: sh h1)
    from shift_loop_distinct [OF this, of dx dy]
    have "h' ! (length h + i) =
        (h1 ! (length h + i))\<lparr>pixel_x := pixel_x (h1 ! (length h + i)) + dx,
           pixel_y := pixel_y (h1 ! (length h + i)) + dy\<rparr>"
      by (simp add: h')
    moreover have "h1 ! (length h + i) = h ! (refs ! i)"
      using i by (simp add: h1)
    ultimately show "coords h' shifted ! i = map (\<lambda>(x, y). (x + dx, y + dy)) (coords h refs) ! i"
      using i b by (simp add: coords_def sh del: upt_Suc)
  qed
qed

lemma ex_shift_pixels:
  "shift_pixels [\<lparr>pixel_x = 10, pixel_y = 10\<rparr>, \<lparr>pixel_x = 50, pixel_y = 50\<rparr>] [0, 1] 2 (- 1)
     = ([\<lparr>pixel_x = 10, pixel_y = 10\<rparr>, \<lparr>pixel_x = 50, pixel_y = 50\<rparr>,
         \<lparr>pixel_x = 12, pixel_y = 9\<rparr>, \<lparr>pixel_x = 52, pixel_y = 49\<rparr>], [2, 3])"
  by (simp add: shift_pixels_def deepcopy_def eval_nat_numeral)

text \<open>
  C7 (amended). For every reference list and every offset \<open>(dx, dy)\<close>, \<open>(0, 0)\<close>
  included, the registration step leaves every object that existed before as it was,
  so the values of the reference list are unchanged; and when the reference list holds
  pairwise distinct objects, the new list consists of new objects and its \<open>i\<close>-th
  element is \<open>(x\<^sub>i + dx, y\<^sub>i + dy)\<close>.
\<close>

theorem shift_pixels_registration:
  assumes "shift_pixels h refs dx dy = (h', shifted)" and "\<forall>a \<in> set refs. a < length h"
  shows "(\<forall>a < length h. h' ! a = h ! a)
       \<and> coords h' refs = coords h refs
       \<and> (distinct refs \<longrightarrow>
            coords h' shifted = map (\<lambda>(x, y). (x + dx, y + dy)) (coords h refs)
            \<and> set shifted \<inter> set refs = {})"
proof -
  have frame: "\<forall>a < length h. h' ! a = h ! a"
    using assms(1) by (auto intro: shift_pixels_frame)
  with assms(2) have "coords h' refs = coords h refs"
    by (simp add: coords_def)
  moreover have "coords h' shifted = map (\<lambda>(x, y). (x + dx, y + dy)) (coords h refs)
      \<and> set shifted \<inter> set refs = {}" if "distinct refs"
    using shift_pixels_distinct [OF assms(1) that assms(2)] assms(2) by auto
  ultimately show ?thesis
    using frame by blast
qed

text \<open>The scenario of the specification: [(10, 10), (50, 50)] shifted by (2, -1).\<close>

theorem shift_pixels_registration_witness:
  "coords [\<lparr>pixel_x = 10, pixel_y = 10\<rparr>, \<lparr>pixel_x = 50, pixel_y = 50\<rparr>,
           \<lparr>pixel_x = 12, pixel_y = 9\<rparr>, \<lparr>pixel_x = 52, pixel_y = 49\<rparr>] [0, 1]
     = coords [\<lparr>pixel_x = 10, pixel_y = 10\<rparr>, \<lparr>pixel_x = 50, pixel_y = 50\<rparr>] [0, 1]
   \<and> coords [\<lparr>pixel_x = 10, pixel_y = 10\<rparr>, \<lparr>pixel_x = 50, pixel_y = 50\<rparr>,
           \<lparr>pixel_x = 12, pixel_y = 9\<rparr>, \<lparr>pixel_x = 52, pixel_y = 49\<rparr>] [2, 3]
     = [(12, 9), (52, 49)]"
  using shift_pixels_registration [OF ex_shift_pixels]
  by (simp add: coords_def)

text \<open>
  C7 as stated fails for a reference list that holds the same object twice: the copy
  holds one new object twice, and the loop shifts it twice.
\<close>

theorem shift_pixels_shared_object:
  "shift_pixels [\<lparr>pixel_x = 10, pixel_y = 10\<rparr>] [0, 0] 2 (- 1)
     = ([\<lparr>pixel_x = 10, pixel_y = 10\<rparr>, \<lparr>pixel_x = 14, pixel_y = 8\<rparr>], [1, 1])
   \<and> coords [\<lparr>pixel_x = 10, pixel_y = 10\<rparr>] [0, 0] = [(10, 10), (10, 10)]
   \<and> coords [\<lparr>pixel_x = 10, pixel_y = 10\<rparr>, \<lparr>pixel_x = 14, pixel_y = 8\<rparr>] [1, 1]
       = [(14, 8), (14, 8)]
   \<and> coords [\<lparr>pixel_x = 10, pixel_y = 10\<rparr>, \<lparr>pixel_x = 14, pixel_y = 8\<rparr>] [1, 1]
       \<noteq> [(10 + 2, 10 + (- 1)), (10 + 2, 10 + (- 1))]"
  by (simp add: shift_pixels_def deepcopy_def coords_def)

text \<open>
  C10. When \<^verbatim>\<open>uncimgk\<close> is \<^verbatim>\<open>None\<close> or the empty string, the image from which the
  mask is built is the image on which photometry was done, whatever the header holds
  and whatever files exist: no keyword is read and no path is tested. IOError is raised
  by this step only for a keyword that is not empty, whose value in the header is a
  path that does not exist.
\<close>

theorem orig_img_path_same_image:
  "(uncimgk = None \<or> uncimgk = Some [] \<longrightarrow>
      orig_img_path header path_exists shifted_image_path uncimgk = Inr shifted_image_path)
   \<and> (orig_img_path header path_exists shifted_image_path uncimgk = Inl IOError \<longrightarrow>
      (\<exists>k path. uncimgk = Some k \<and> k \<noteq> [] \<and> read_keyword header uncimgk = Inr path
                 \<and> \<not> path_exists path))"
  by (auto simp: orig_img_path_def read_keyword_def bind_fault_def
      split: sum.splits if_splits option.splits)

theorem orig_img_path_same_image_witness:
  "orig_img_path Map.empty (\<lambda>path. False) ''shifted.fits'' None = Inr ''shifted.fits''
   \<and> orig_img_path Map.empty (\<lambda>path. False) ''shifted.fits'' (Some []) = Inr ''shifted.fits''
   \<and> orig_img_path [''UNCIMG'' \<mapsto> ''raw.fits''] (\<lambda>path. False) ''shifted.fits'' (Some ''uncimg'')
       = Inl IOError
   \<and> (\<exists>k path. Some ''uncimg'' = Some k \<and> k \<noteq> []
        \<and> read_keyword [''UNCIMG'' \<mapsto> ''raw.fits''] (Some ''uncimg'') = Inr path)"
proof -
  have e: "orig_img_path [''UNCIMG'' \<mapsto> ''raw.fits''] (\<lambda>path. False) ''shifted.fits''
      (Some ''uncimg'') = Inl IOError"
    by (simp add: orig_img_path_def read_keyword_def bind_fault_def upper_char_def)
  show ?thesis
    using orig_img_path_same_image [of None Map.empty "\<lambda>path. False" "''shifted.fits''"]
      orig_img_path_same_image [of "Some []" Map.empty "\<lambda>path. False" "''shifted.fits''"]
      orig_img_path_same_image [of "Some ''uncimg''" "[''UNCIMG'' \<mapsto> ''raw.fits'']"
        "\<lambda>path. False" "''shifted.fits''"] e
    by auto
qed

lemma classify_loop_magnitude:
  "classify_loop debug img_qphot mask_qphot = Inr out \<Longrightarrow>
   map magnitude out = map magnitude img_qphot"
proof (induction debug img_qphot mask_qphot arbitrary: out rule: classify_loop.induct)
  case (3 debug star_phot img_qphot star_mask mask_qphot)
  then show ?case
    by (auto simp: bind_fault_def split: sum.splits)
qed simp_all

lemma classify_magnitude_unchanged:
  "classify debug img_qphot mask_qphot = Inr out \<Longrightarrow>
   map magnitude out = map magnitude img_qphot"
  by (auto simp: classify_def bind_fault_def classify_loop_magnitude split: sum.splits)

text \<open>
  C1. A star whose flux in the mask is greater than 0 should get the magnitude
  infinity, and any other star keeps its magnitude. The second half holds
  (\<open>classify_magnitude_unchanged\<close>), the first does not: line 515 assigns the attribute
  \<^verbatim>\<open>mag\<close>, while the magnitude of a result is the attribute \<^verbatim>\<open>magnitude\<close>. With a
  flux of 3.2 in the mask for the second of two stars, the magnitude of that star is
  still 11 after the loop.
\<close>

theorem classify_saturated_star:
  "classify True
     [\<lparr>xcenter = 12, ycenter = 9, magnitude = Some (Finite 15), sum_adu = 900, flux = 400,
        stdev = Some 2, mag = None\<rparr>,
      \<lparr>xcenter = 52, ycenter = 49, magnitude = Some (Finite 11), sum_adu = 9000, flux = 7000,
        stdev = Some 2, mag = None\<rparr>]
     [\<lparr>xcenter = 12, ycenter = 9, magnitude = None, sum_adu = 0, flux = 0,
        stdev = Some 0, mag = None\<rparr>,
      \<lparr>xcenter = 52, ycenter = 49, magnitude = Some (Finite 20), sum_adu = 16 / 5, flux = 16 / 5,
        stdev = Some 0, mag = None\<rparr>]
   = Inr
     [\<lparr>xcenter = 12, ycenter = 9, magnitude = Some (Finite 15), sum_adu = 900, flux = 400,
        stdev = Some 2, mag = None\<rparr>,
      \<lparr>xcenter = 52, ycenter = 49, magnitude = Some (Finite 11), sum_adu = 9000, flux = 7000,
        stdev = Some 2, mag = Some Infinity\<rparr>]"
  by (simp add: classify_def bind_fault_def py_assert_def)


section \<open>Properties of stable_overscan\<close>

lemma shrink_loop_exhausted_inverted:
  assumes "shrink_loop im pc x1 x2 y1 y2 m s t off = Some out"
  shows "case out of Exhausted a b c d \<Rightarrow> a > b \<or> c > d | Converged a b c d \<Rightarrow> a \<le> b \<and> c \<le> d"
proof (rule shrink_loop.raw_induct[where P ="\<lambda>im pc x1 x2 y1 y2 m s t off out.
   (case out of Exhausted a b c d \<Rightarrow> a > b \<or> c > d | Converged a b c d \<Rightarrow> a \<le> b \<and> c \<le> d)", OF _ assms], goal_cases)
  case (1 f im pc x1 x2 y1 y2 m s t off out)
  then show ?case
    by (auto simp: Let_def split: if_splits)
qed

lemma shrink_loop_inverted:
  assumes "0 \<le> off" "x1 > x2 \<or> y1 > y2"
  shows "shrink_loop im pc x1 x2 y1 y2 m s t off =
           Some (Exhausted (x1 + off) (x2 - off) (y1 + off) (y2 - off))"
  using assms by (subst shrink_loop.simps) (auto simp: Let_def)

lemma stable_overscan_restart:
  assumes "shrink_loop im pc x1 x2 y1 y2 (im ''mean'' x1 x2 y1 y2) (im ''stddev'' x1 x2 y1 y2) t off
             = Some (Exhausted a b c d)"
  shows "stable_overscan im pc x1 x2 y1 y2 t off = stable_overscan im pc a b c d (t * 2) off"
  using assms by (subst stable_overscan.simps) (simp add: Let_def)

lemma stable_overscan_converged:
  assumes "shrink_loop im pc x1 x2 y1 y2 (im ''mean'' x1 x2 y1 y2) (im ''stddev'' x1 x2 y1 y2) t off
             = Some (Converged a b c d)"
  shows "stable_overscan im pc x1 x2 y1 y2 t off = Some (a, b, c, d)"
  using assms by (subst stable_overscan.simps) (simp add: Let_def)

lemma stable_overscan_not_inverted:
  assumes "stable_overscan im pc x1 x2 y1 y2 t off = Some r"
  shows "0 \<le> off \<longrightarrow> \<not> (x1 > x2 \<or> y1 > y2)"
proof (rule stable_overscan.raw_induct[where P ="\<lambda>im pc x1 x2 y1 y2 t off r.
   0 \<le> off \<longrightarrow> \<not> (x1 > x2 \<or> y1 > y2)", OF _ assms], goal_cases)
  case (1 f im pc x1 x2 y1 y2 t off r)
  show ?case
  proof (intro impI notI)
    assume off: "0 \<le> off" and inv: "x2 < x1 \<or> y2 < y1"
    from shrink_loop_inverted[OF off inv] 1(2)
    have "f im pc (x1 + off) (x2 - off) (y1 + off) (y2 - off) (t * 2) off = Some r"
      by (simp add: Let_def)
    from 1(1)[OF this] off inv show False
      by auto
  qed
qed

lemma stable_overscan_inverted_None:
  assumes "0 \<le> off" "x1 > x2 \<or> y1 > y2"
  shows "stable_overscan im pc x1 x2 y1 y2 t off = None"
proof (cases "stable_overscan im pc x1 x2 y1 y2 t off")
  case None
  then show ?thesis .
next
  case (Some r)
  from stable_overscan_not_inverted[OF Some] assms show ?thesis
    by simp
qed

lemma stable_overscan_thr_sound:
  assumes "stable_overscan_thr im pc x1 x2 y1 y2 t off = Some res"
  shows "stable_overscan im pc x1 x2 y1 y2 t off = Some (fst res) \<and>
         fst (snd res) = 2 ^ snd (snd res) * t"
proof (rule stable_overscan_thr.raw_induct[where P ="\<lambda>im pc x1 x2 y1 y2 t off res.
   stable_overscan im pc x1 x2 y1 y2 t off = Some (fst res) \<and>
         fst (snd res) = 2 ^ snd (snd res) * t", OF _ assms], goal_cases)
  case (1 f im pc x1 x2 y1 y2 t off res)
  let ?m = "im ''mean'' x1 x2 y1 y2" and ?s = "im ''stddev'' x1 x2 y1 y2"
  show ?case
  proof (cases "shrink_loop im pc x1 x2 y1 y2 ?m ?s t off")
    case None
    with 1(2) show ?thesis by (simp add: Let_def)
  next
    case (Some out)
    show ?thesis
    proof (cases out)
      case (Converged a b c d)
      with Some 1(2) stable_overscan_converged[of im pc x1 x2 y1 y2 t off a b c d]
      show ?thesis by (auto simp: Let_def)
    next
      case (Exhausted a b c d)
      with Some 1(2) obtain r' t' k' where
        f: "f im pc a b c d (t * 2) off = Some (r', t', k')" and res: "res = (r', t', Suc k')"
        by (auto simp: Let_def split: Option.bind_splits)
      from 1(1)[OF f] have "stable_overscan im pc a b c d (t * 2) off = Some r'"
        and "t' = 2 ^ k' * (t * 2)" by simp_all
      with stable_overscan_restart[of im pc x1 x2 y1 y2 t off a b c d] Some Exhausted res
      show ?thesis by simp
    qed
  qed
qed

lemma stable_overscan_thr_complete:
  assumes "stable_overscan im pc x1 x2 y1 y2 t off = Some r"
  shows "\<exists>t' k. stable_overscan_thr im pc x1 x2 y1 y2 t off = Some (r, t', k)"
proof (rule stable_overscan.raw_induct[where P ="\<lambda>im pc x1 x2 y1 y2 t off r.
    \<exists>t' k. stable_overscan_thr im pc x1 x2 y1 y2 t off = Some (r, t', k)", OF _ assms], goal_cases)
  case (1 f im pc x1 x2 y1 y2 t off r)
  let ?m = "im ''mean'' x1 x2 y1 y2" and ?s = "im ''stddev'' x1 x2 y1 y2"
  show ?case
  proof (cases "shrink_loop im pc x1 x2 y1 y2 ?m ?s t off")
    case None
    with 1(2) show ?thesis by (simp add: Let_def)
  next
    case (Some out)
    show ?thesis
    proof (cases out)
      case (Converged a b c d)
      with Some 1(2) show ?thesis
        by (subst stable_overscan_thr.simps) (auto simp: Let_def)
    next
      case (Exhausted a b c d)
      with Some 1(2) have "f im pc a b c d (t * 2) off = Some r"
        by (simp add: Let_def)
      from 1(1)[OF this] obtain t' k where
        "stable_overscan_thr im pc a b c d (t * 2) off = Some (r, t', k)" by blast
      with Some Exhausted show ?thesis
        by (subst stable_overscan_thr.simps) (simp add: Let_def)
    qed
  qed
qed

lemma ex_exhausted:
  "shrink_loop imstat_ex percentage_change_ex 1 5 1 5
     (imstat_ex ''mean'' 1 5 1 5) (imstat_ex ''stddev'' 1 5 1 5) 1 1 = Some (Exhausted 4 2 4 2)"
  apply (subst shrink_loop.simps, simp add: imstat_ex_def percentage_change_ex_def Let_def)
  apply (subst shrink_loop.simps, simp add: imstat_ex_def percentage_change_ex_def Let_def)
  apply (subst shrink_loop.simps, simp add: imstat_ex_def percentage_change_ex_def Let_def)
  done

lemma ex_converged:
  assumes "3 / 2 \<le> t"
  shows "stable_overscan imstat_ex percentage_change_ex 1 5 1 5 t 1 = Some (2, 4, 2, 4)"
  using assms
  apply (subst stable_overscan.simps)
  apply (subst shrink_loop.simps, simp add: imstat_ex_def percentage_change_ex_def Let_def)
  done

lemma ex_negative_exhausted:
  "shrink_loop imstat_ex percentage_change_ex 5 2 5 6
     (imstat_ex ''mean'' 5 2 5 6) (imstat_ex ''stddev'' 5 2 5 6) 1 (- 1) = Some (Exhausted 4 3 4 7)"
  by (subst shrink_loop.simps, simp add: imstat_ex_def percentage_change_ex_def Let_def)

lemma ex_negative_converged:
  "stable_overscan imstat_ex percentage_change_ex 5 2 5 6 1 (- 1) = Some (3, 4, 3, 8)"
  apply (simp add: stable_overscan_restart [OF ex_negative_exhausted])
  apply (subst stable_overscan.simps)
  apply (subst shrink_loop.simps, simp add: imstat_ex_def percentage_change_ex_def Let_def)
  done



text \<open>
  C9 (amended). When the offset is not negative and the loop of \<open>stable_overscan\<close>
  reaches exhaustion, the coordinates at that point are inverted, the recursive call
  receives these coordinates with twice the threshold, its loop is exhausted again at
  the first iteration, and the call of \<open>stable_overscan\<close> never returns.
\<close>

theorem stable_overscan_exhaustion_diverges:
  assumes "0 \<le> off"
    and "shrink_loop im pc x1 x2 y1 y2 (im ''mean'' x1 x2 y1 y2) (im ''stddev'' x1 x2 y1 y2) t off
           = Some (Exhausted a b c d)"
  shows "(a > b \<or> c > d)
       \<and> stable_overscan im pc x1 x2 y1 y2 t off = stable_overscan im pc a b c d (t * 2) off
       \<and> shrink_loop im pc a b c d (im ''mean'' a b c d) (im ''stddev'' a b c d) (t * 2) off
           = Some (Exhausted (a + off) (b - off) (c + off) (d - off))
       \<and> stable_overscan im pc x1 x2 y1 y2 t off = None"
proof -
  from shrink_loop_exhausted_inverted [OF assms(2)] have inv: "a > b \<or> c > d"
    by simp
  have restart: "stable_overscan im pc x1 x2 y1 y2 t off
                   = stable_overscan im pc a b c d (t * 2) off"
    using assms(2) by (rule stable_overscan_restart)
  have again: "shrink_loop im pc a b c d (im ''mean'' a b c d) (im ''stddev'' a b c d) (t * 2) off
           = Some (Exhausted (a + off) (b - off) (c + off) (d - off))"
    using assms(1) inv by (rule shrink_loop_inverted)
  have "stable_overscan im pc a b c d (t * 2) off = None"
    using assms(1) inv by (rule stable_overscan_inverted_None)
  with inv restart again show ?thesis
    by simp
qed

theorem stable_overscan_exhaustion_diverges_witness:
  "stable_overscan imstat_ex percentage_change_ex 1 5 1 5 1 1
     = stable_overscan imstat_ex percentage_change_ex 4 2 4 2 (1 * 2) 1
   \<and> shrink_loop imstat_ex percentage_change_ex 4 2 4 2
       (imstat_ex ''mean'' 4 2 4 2) (imstat_ex ''stddev'' 4 2 4 2) (1 * 2) 1
     = Some (Exhausted (4 + 1) (2 - 1) (4 + 1) (2 - 1))
   \<and> stable_overscan imstat_ex percentage_change_ex 1 5 1 5 1 1 = None"
  by (rule conjunct2 [OF stable_overscan_exhaustion_diverges [OF _ ex_exhausted]]) simp

text \<open>
  C9 as stated fails for a negative offset, which widens the section: the loop is
  exhausted at the first iteration, and the recursive call returns.
\<close>

theorem stable_overscan_negative_offset_returns:
  "shrink_loop imstat_ex percentage_change_ex 5 2 5 6
     (imstat_ex ''mean'' 5 2 5 6) (imstat_ex ''stddev'' 5 2 5 6) 1 (- 1) = Some (Exhausted 4 3 4 7)
   \<and> stable_overscan imstat_ex percentage_change_ex 5 2 5 6 1 (- 1) = Some (3, 4, 3, 8)"
  using ex_negative_exhausted ex_negative_converged by simp

text \<open>
  C2. At exhaustion the search should start again on the rectangle of the caller with
  twice the threshold. The code passes the coordinates at exhaustion instead: for the
  section [1:5,1:5] with threshold 1 and offset 1 the loop is exhausted at (4, 2, 4, 2),
  the recursive call is on these coordinates, and the call never returns, though the
  search on [1:5,1:5] with threshold 2 returns (2, 4, 2, 4).
\<close>

theorem stable_overscan_restarts_on_shrunk:
  "shrink_loop imstat_ex percentage_change_ex 1 5 1 5
     (imstat_ex ''mean'' 1 5 1 5) (imstat_ex ''stddev'' 1 5 1 5) 1 1 = Some (Exhausted 4 2 4 2)
   \<and> stable_overscan imstat_ex percentage_change_ex 1 5 1 5 1 1
       = stable_overscan imstat_ex percentage_change_ex 4 2 4 2 2 1
   \<and> stable_overscan imstat_ex percentage_change_ex 1 5 1 5 1 1 = None
   \<and> stable_overscan imstat_ex percentage_change_ex 1 5 1 5 2 1 = Some (2, 4, 2, 4)"
  using ex_exhausted stable_overscan_restart [OF ex_exhausted]
    stable_overscan_inverted_None [where off = 1 and ?x1.0 = 4 and ?x2.0 = 2 and ?y1.0 = 4
      and ?y2.0 = 2 and im = imstat_ex and pc = percentage_change_ex and t = 2]
    ex_converged [of 2]
  by simp

text \<open>
  C5 as stated fails: the value returned is the four coordinates and nothing else, so
  two calls that converge under different thresholds return the same value.
\<close>

theorem stable_overscan_returns_rectangle_only:
  "stable_overscan imstat_ex percentage_change_ex 1 5 1 5 2 1 = Some (2, 4, 2, 4)
   \<and> stable_overscan imstat_ex percentage_change_ex 1 5 1 5 4 1 = Some (2, 4, 2, 4)"
  using ex_converged [of 2] ex_converged [of 4] by simp

text \<open>
  C5 (amended). Every call of \<open>stable_overscan\<close> that returns gives the rectangle
  \<open>(x1, x2, y1, y2)\<close> alone; the threshold under which its loop converged is
  \<open>2 ^ k\<close> times the threshold of the caller, where \<open>k\<close> is the number of recursive
  calls, and \<open>k \<ge> 1\<close> exactly when the loop of the first call was exhausted.
\<close>

theorem stable_overscan_threshold:
  assumes "stable_overscan im pc x1 x2 y1 y2 t off = Some r"
  shows "\<exists>k. stable_overscan_thr im pc x1 x2 y1 y2 t off = Some (r, 2 ^ k * t, k)
           \<and> (1 \<le> k \<longleftrightarrow> (\<exists>a b c d. shrink_loop im pc x1 x2 y1 y2 (im ''mean'' x1 x2 y1 y2)
                               (im ''stddev'' x1 x2 y1 y2) t off = Some (Exhausted a b c d)))"
proof -
  from stable_overscan_thr_complete [OF assms] obtain t' k where
    thr: "stable_overscan_thr im pc x1 x2 y1 y2 t off = Some (r, t', k)" by blast
  from stable_overscan_thr_sound [OF thr] have t': "t' = 2 ^ k * t"
    by simp
  have "1 \<le> k \<longleftrightarrow> (\<exists>a b c d. shrink_loop im pc x1 x2 y1 y2 (im ''mean'' x1 x2 y1 y2)
                               (im ''stddev'' x1 x2 y1 y2) t off = Some (Exhausted a b c d))"
    using thr
    by (subst (asm) stable_overscan_thr.simps)
       (auto simp: Let_def split: option.splits outcome.splits Option.bind_splits)
  with thr t' show ?thesis
    by blast
qed

theorem stable_overscan_threshold_witness:
  "\<exists>k. stable_overscan_thr imstat_ex percentage_change_ex 5 2 5 6 1 (- 1)
          = Some ((3, 4, 3, 8), 2 ^ k * 1, k)
        \<and> (1 \<le> k \<longleftrightarrow> (\<exists>a b c d. shrink_loop imstat_ex percentage_change_ex 5 2 5 6
              (imstat_ex ''mean'' 5 2 5 6) (imstat_ex ''stddev'' 5 2 5 6) 1 (- 1)
                = Some (Exhausted a b c d)))"
  using stable_overscan_threshold [OF ex_negative_converged] .

end
